theory Spec2Isabelle
  imports Main
begin

section \<open>Data model\<close>

text \<open>
  A chat message as the handlers build it: \<^verbatim>\<open>{ role, content }\<close>.
\<close>

record message =
  role :: string
  content :: string

text \<open>
  \<^verbatim>\<open>RunnerResponse\<close>, the value every capability handler resolves to: the model to stream
  from and the messages to send to it.
\<close>

record runner_response =
  model :: string
  messages :: "message list"

text \<open>The \<^verbatim>\<open>args\<close> parameter of \<^verbatim>\<open>executeModel.execute\<close>.\<close>

record execute_args =
  model :: string
  instruction :: string

text \<open>
  Errors that the handler can meet: the two that the JavaScript runtime raises by itself
  (a property read on \<^verbatim>\<open>undefined\<close>, a \<^verbatim>\<open>JSON.parse\<close> failure) and
  \<^verbatim>\<open>new Error(msg)\<close>, which also stands for every failure of a remote call.
\<close>

datatype error = TypeError | SyntaxError | Error string

section \<open>\<^verbatim>\<open>functions/execute-model.ts\<close>\<close>

definition executeModel_name :: string where
  "executeModel_name = ''execute_model''"

definition executeModel_execute :: "message list \<Rightarrow> execute_args \<Rightarrow> runner_response" where
  "executeModel_execute _ args =
     \<lparr> runner_response.model = execute_args.model args,
       messages =
         [ \<lparr> role = ''system'',
             content = ''Begin your response by telling the user the name of your language model.'' \<rparr>,
           \<lparr> role = ''user'', content = instruction args \<rparr> ] \<rparr>"

section \<open>The values that \<^verbatim>\<open>index.ts\<close> exchanges with its collaborators\<close>

text \<open>An entry of the catalogue that \<^verbatim>\<open>modelsAPI.listModels()\<close> resolves to.\<close>

record model_info =
  friendly_name :: string
  name :: string
  publisher :: string
  model_registry :: string
  summary :: string

text \<open>
  The non-streaming answer of the tool-selection call, as far as the handler reads it:
  \<^verbatim>\<open>toolCaller.choices[0].message.tool_calls[0].function\<close> with its
  \<^verbatim>\<open>name\<close> and \<^verbatim>\<open>arguments\<close>. A field that the handler tests for
  presence is an \<open>option\<close>.
\<close>

record function_call =
  name :: string
  arguments :: string

record tool_call =
  func :: "function_call option"

record chat_message =
  tool_calls :: "tool_call list option"

record choice =
  message :: "chat_message option"

record completion =
  choices :: "choice list"

text \<open>
  The argument of \<^verbatim>\<open>chat.completions.create\<close>. A key that a call site leaves out
  is \<open>None\<close>. The tool set \<^verbatim>\<open>functions.map((f) => f.tool)\<close> is held by the names
  of the definitions that the tools wrap, \<open>None\<close> for a class on which
  \<^verbatim>\<open>definition\<close> is undefined.
\<close>

record stream_options =
  include_usage :: bool

record completion_request =
  stream :: bool
  model :: string
  messages :: "message list"
  tool_choice :: "string option"
  tools :: "string option list option"
  stream_options :: "stream_options option"

text \<open>
  A backend stream: the chunks it yields, in order, and then either exhaustion
  (\<open>None\<close>) or the error that the iteration raises.
\<close>

datatype 'c stream = Stream (chunks: "'c list") (failure: "error option")

text \<open>
  A registered capability, which is a class: whether its \<^verbatim>\<open>definition\<close> is a static
  member, the name in that definition, and its \<^verbatim>\<open>execute\<close> method, applied to
  \<^verbatim>\<open>payload.messages\<close> and the parsed arguments. A rejected promise is \<open>Inl\<close>.
  \<^verbatim>\<open>index.ts\<close> reads \<^verbatim>\<open>f.definition\<close> on the class itself, where a definition
  that is declared as an instance field is \<^verbatim>\<open>undefined\<close>.
\<close>

record 'j tool =
  definition_static :: bool
  definition_name :: string
  execute :: "message list \<Rightarrow> 'j \<Rightarrow> error + runner_response"

text \<open>
  What the handler does that can be seen from outside, in the order in which it does it:
  the calls on the response object \<^verbatim>\<open>res\<close> (\<open>Status\<close>, \<open>Write\<close>, \<open>End\<close>,
  \<open>EndWith\<close>, \<open>Send\<close>), the remote calls (\<open>ListModels\<close>, \<open>CapiCreate\<close> on the
  Copilot client, \<open>InferenceCreate\<close> on the models client) and the invocation of a
  capability handler (\<open>Execute\<close>, with the name the Selector gave).
\<close>

datatype event =
    Status nat
  | Write string
  | End
  | EndWith string
  | Send string
  | ListModels
  | CapiCreate completion_request
  | InferenceCreate completion_request
  | Execute string

text \<open>How the \<^verbatim>\<open>async\<close> handler ends: it returns, or its promise is rejected.\<close>

datatype outcome = Returned | Rejected error

text \<open>
  Everything the handler receives from outside, for one request. \<open>'c\<close> is the type of a
  stream chunk, \<open>'j\<close> the type of a value produced by \<^verbatim>\<open>JSON.parse\<close>.
  \<^item> \<open>verifyAndParseRequest\<close>: the SDK call raises, or resolves to
    \<^verbatim>\<open>isValidRequest\<close> and \<^verbatim>\<open>payload.messages\<close>;
  \<^item> \<open>X_GitHub_Token\<close>: \<^verbatim>\<open>req.get("X-GitHub-Token")\<close>, \<open>None\<close> when the header
    is absent;
  \<^item> \<open>createAckEvent\<close>: \<^verbatim>\<open>createAckEvent().toString()\<close>;
  \<^item> \<open>listModels_result\<close>: \<^verbatim>\<open>await modelsAPI.listModels()\<close>;
  \<^item> \<open>stringify_models\<close>, \<open>stringify_chunk\<close>: \<^verbatim>\<open>JSON.stringify\<close> on the list
    of model summaries (each an object, given as its key-value pairs) and on a chunk;
  \<^item> \<open>parse\<close>: \<^verbatim>\<open>JSON.parse\<close>, \<open>None\<close> when it raises;
  \<^item> \<open>capi_completion\<close>, \<open>capi_stream\<close>: \<^verbatim>\<open>capiClient.chat.completions.create\<close>
    with \<^verbatim>\<open>stream: false\<close> and \<^verbatim>\<open>stream: true\<close>;
  \<^item> \<open>inference_stream\<close>: \<^verbatim>\<open>modelsAPI.inference.chat.completions.create\<close>;
  \<^item> \<open>listModels\<close>, \<open>describeModel\<close>, \<open>recommendModel\<close>: the three capabilities
    defined in other files;
  \<^item> \<open>as_execute_args\<close>: the parsed arguments read at the type that
    \<^verbatim>\<open>executeModel.execute\<close> declares for them; \<open>Inl\<close> when reading a property of
    the value raises.
\<close>

record ('c, 'j) world =
  verifyAndParseRequest :: "error + bool \<times> message list"
  X_GitHub_Token :: "string option"
  createAckEvent :: string
  listModels_result :: "error + model_info list"
  stringify_models :: "(string \<times> string) list list \<Rightarrow> string"
  stringify_chunk :: "'c \<Rightarrow> string"
  parse :: "string \<Rightarrow> 'j option"
  capi_completion :: "completion_request \<Rightarrow> error + completion"
  capi_stream :: "completion_request \<Rightarrow> error + 'c stream"
  inference_stream :: "completion_request \<Rightarrow> error + 'c stream"
  listModels :: "'j tool"
  describeModel :: "'j tool"
  recommendModel :: "'j tool"
  as_execute_args :: "'j \<Rightarrow> error + execute_args"

section \<open>\<^verbatim>\<open>index.ts\<close>: the POST handler\<close>

text \<open>\<^verbatim>\<open>Array.prototype.join\<close> on strings.\<close>

fun join :: "string \<Rightarrow> string list \<Rightarrow> string" where
  "join sep [] = []"
| "join sep [x] = x"
| "join sep (x # y # ys) = x @ sep @ join sep (y # ys)"

text \<open>
  The capability \<^verbatim>\<open>executeModel\<close> as an entry of the registry. Line 5 of
  \<^verbatim>\<open>execute-model.ts\<close> declares \<^verbatim>\<open>definition = { ... }\<close> without
  \<^verbatim>\<open>static\<close>: the definition belongs to the instances, not to the class.
\<close>

definition executeModel :: "('c, 'j) world \<Rightarrow> 'j tool" where
  "executeModel w =
     \<lparr> definition_static = False,
       definition_name = executeModel_name,
       execute = (\<lambda>conversation args.
         case as_execute_args w args of
           Inl err \<Rightarrow> Inl err
         | Inr a \<Rightarrow> Inr (executeModel_execute conversation a)) \<rparr>"

text \<open>\<^verbatim>\<open>const functions = [listModels, describeModel, executeModel, recommendModel]\<close>\<close>

definition functions' :: "('c, 'j) world \<Rightarrow> 'j tool list" where
  "functions' w = [listModels w, describeModel w, executeModel w, recommendModel w]"

text \<open>Lines 60--81: the messages of the tool-selection request.\<close>

definition system_preamble :: "('c, 'j) world \<Rightarrow> model_info list \<Rightarrow> message" where
  "system_preamble w models =
     \<lparr> role = ''system'',
       content = join [CHR 0x0A]
         [ ''You are an extension of GitHub Copilot, built to interact with GitHub Models.'',
           ''GitHub Models is a language model playground, where you can experiment with different models and see how they respond to your prompts.'',
           ''Here is a list of some of the models available to the user:'',
           ''<-- LIST OF MODELS -->'',
           stringify_models w
             (map (\<lambda>model.
                [ (''friendly_name'', friendly_name model),
                  (''name'', model_info.name model),
                  (''publisher'', publisher model),
                  (''registry'', model_registry model),
                  (''description'', summary model) ]) models),
           ''<-- END OF LIST OF MODELS -->'' ] \<rparr>"

definition toolCallMessages ::
  "('c, 'j) world \<Rightarrow> model_info list \<Rightarrow> message list \<Rightarrow> message list" where
  "toolCallMessages w models payload_messages =
     (system_preamble w models # payload_messages) @ payload_messages"

definition toolCallRequest ::
  "('c, 'j) world \<Rightarrow> model_info list \<Rightarrow> message list \<Rightarrow> completion_request" where
  "toolCallRequest w models payload_messages =
     \<lparr> stream = False,
       model = ''gpt-4'',
       messages = toolCallMessages w models payload_messages,
       tool_choice = Some ''auto'',
       tools = Some (map (\<lambda>f. if definition_static f then Some (definition_name f) else None)
                      (functions' w)),
       stream_options = None \<rparr>"

text \<open>
  Lines 107--110 and 151--154: the \<^verbatim>\<open>for await\<close> loop over the chunks that the
  stream yields, with the response log as the state that each \<^verbatim>\<open>res.write\<close> extends.
\<close>

definition chunkStr :: "('c \<Rightarrow> string) \<Rightarrow> 'c \<Rightarrow> string" where
  "chunkStr stringify chunk = ''data: '' @ stringify chunk @ [CHR 0x0A, CHR 0x0A]"

definition done_frame :: string where
  "done_frame = ''data: [DONE]'' @ [CHR 0x0A, CHR 0x0A]"

fun for_await :: "('c \<Rightarrow> string) \<Rightarrow> 'c list \<Rightarrow> event list \<Rightarrow> event list" where
  "for_await stringify [] res = res"
| "for_await stringify (chunk # rest) res =
     for_await stringify rest (res @ [Write (chunkStr stringify chunk)])"

text \<open>
  Lines 93--98: the guard of the fallback branch. \<^verbatim>\<open>choices[0]\<close> of an empty array is
  \<^verbatim>\<open>undefined\<close>, which is falsy; an array is truthy also when it is empty, and then
  \<^verbatim>\<open>tool_calls[0]\<close> is \<^verbatim>\<open>undefined\<close> and reading its \<^verbatim>\<open>function\<close> raises
  a \<^verbatim>\<open>TypeError\<close>.
\<close>

definition no_tool_call :: "completion \<Rightarrow> error + bool" where
  "no_tool_call toolCaller =
     (case choices toolCaller of
        [] \<Rightarrow> Inr True
      | c # _ \<Rightarrow>
          (case message c of
             None \<Rightarrow> Inr True
           | Some m \<Rightarrow>
               (case tool_calls m of
                  None \<Rightarrow> Inr True
                | Some [] \<Rightarrow> Inl TypeError
                | Some (t # _) \<Rightarrow> Inr (func t = None))))"

text \<open>Line 116: \<^verbatim>\<open>toolCaller.choices[0].message.tool_calls[0].function\<close>.\<close>

definition functionToCall :: "completion \<Rightarrow> error + function_call" where
  "functionToCall toolCaller =
     (case choices toolCaller of
        c # _ \<Rightarrow>
          (case message c of
             Some m \<Rightarrow>
               (case tool_calls m of
                  Some (t # _) \<Rightarrow> (case func t of Some f \<Rightarrow> Inr f | None \<Rightarrow> Inl TypeError)
                | _ \<Rightarrow> Inl TypeError)
           | None \<Rightarrow> Inl TypeError)
      | [] \<Rightarrow> Inl TypeError)"

text \<open>
  Lines 99--113: no tool to call. The stream is requested from the Copilot client with
  the original messages; nothing here is inside a \<^verbatim>\<open>try\<close>.
\<close>

definition fallback_request :: "message list \<Rightarrow> completion_request" where
  "fallback_request payload_messages =
     \<lparr> stream = True, model = ''gpt-4'', messages = payload_messages,
       tool_choice = None, tools = None, stream_options = None \<rparr>"

definition fallback ::
  "('c, 'j) world \<Rightarrow> message list \<Rightarrow> event list \<Rightarrow> event list \<times> outcome" where
  "fallback w payload_messages res =
     (let res = res @ [CapiCreate (fallback_request payload_messages)]
      in case capi_stream w (fallback_request payload_messages) of
           Inl err \<Rightarrow> (res, Rejected err)
         | Inr s \<Rightarrow>
             (let res = for_await (stringify_chunk w) (chunks s) res
              in case failure s of
                   Some err \<Rightarrow> (res, Rejected err)
                 | None \<Rightarrow> (res @ [Write done_frame, End], Returned)))"

text \<open>
  Lines 140--161: the answer is streamed from the models client; the \<^verbatim>\<open>catch\<close>
  turns every failure into \<^verbatim>\<open>res.status(500).end()\<close>.
\<close>

definition answer_request :: "runner_response \<Rightarrow> completion_request" where
  "answer_request functionCallRes =
     \<lparr> stream = True,
       model = runner_response.model functionCallRes,
       messages = runner_response.messages functionCallRes,
       tool_choice = None, tools = None,
       stream_options = Some \<lparr> include_usage = False \<rparr> \<rparr>"

definition answer ::
  "('c, 'j) world \<Rightarrow> runner_response \<Rightarrow> event list \<Rightarrow> event list \<times> outcome" where
  "answer w functionCallRes res =
     (let res = res @ [InferenceCreate (answer_request functionCallRes)]
      in case inference_stream w (answer_request functionCallRes) of
           Inl err \<Rightarrow> (res @ [Status 500, End], Returned)
         | Inr s \<Rightarrow>
             (let res = for_await (stringify_chunk w) (chunks s) res
              in case failure s of
                   Some err \<Rightarrow> (res @ [Status 500, End], Returned)
                 | None \<Rightarrow> (res @ [Write done_frame, End], Returned)))"

text \<open>
  Lines 123--125: \<^verbatim>\<open>functions.find((f) => f.definition.name === functionToCall.name)\<close>.
  The predicate is applied to the classes in order until one matches; on a class
  without a static definition, reading \<^verbatim>\<open>f.definition.name\<close> raises a
  \<^verbatim>\<open>TypeError\<close>.
\<close>

fun find_funcClass :: "string \<Rightarrow> 'j tool list \<Rightarrow> error + 'j tool option" where
  "find_funcClass n [] = Inr None"
| "find_funcClass n (f # fs) =
     (if definition_static f
      then (if definition_name f = n then Inr (Some f) else find_funcClass n fs)
      else Inl TypeError)"

text \<open>
  Lines 116--138: \<^verbatim>\<open>JSON.parse\<close> stands before the \<^verbatim>\<open>try\<close>; the lookup in the
  registry and the call of the handler stand inside it, and the \<^verbatim>\<open>catch\<close> answers
  every failure with \<^verbatim>\<open>res.status(500).end()\<close>.
\<close>

definition function_exec ::
  "('c, 'j) world \<Rightarrow> message list \<Rightarrow> completion \<Rightarrow> event list \<Rightarrow> event list \<times> outcome" where
  "function_exec w payload_messages toolCaller res =
     (case functionToCall toolCaller of
        Inl err \<Rightarrow> (res, Rejected err)
      | Inr f \<Rightarrow>
          (case parse w (arguments f) of
             None \<Rightarrow> (res, Rejected SyntaxError)
           | Some args \<Rightarrow>
               (case find_funcClass (name f) (functions' w) of
                  Inl err \<Rightarrow> (res @ [Status 500, End], Returned)
                | Inr None \<Rightarrow> (res @ [Status 500, End], Returned)
                | Inr (Some funcClass) \<Rightarrow>
                    (let res = res @ [Execute (name f)]
                     in case execute funcClass payload_messages args of
                          Inl err \<Rightarrow> (res @ [Status 500, End], Returned)
                        | Inr functionCallRes \<Rightarrow> answer w functionCallRes res))))"

text \<open>Lines 93--138: the branch on the guard.\<close>

definition dispatch ::
  "('c, 'j) world \<Rightarrow> message list \<Rightarrow> completion \<Rightarrow> event list \<Rightarrow> event list \<times> outcome" where
  "dispatch w payload_messages toolCaller res =
     (case no_tool_call toolCaller of
        Inl err \<Rightarrow> (res, Rejected err)
      | Inr True \<Rightarrow> fallback w payload_messages res
      | Inr False \<Rightarrow> function_exec w payload_messages toolCaller res)"

text \<open>Lines 59--91: the catalogue is fetched and the tool-selection call is made.\<close>

definition select ::
  "('c, 'j) world \<Rightarrow> message list \<Rightarrow> event list \<Rightarrow> event list \<times> outcome" where
  "select w payload_messages res =
     (let res = res @ [ListModels]
      in case listModels_result w of
           Inl err \<Rightarrow> (res, Rejected err)
         | Inr models \<Rightarrow>
             (let request = toolCallRequest w models payload_messages;
                  res = res @ [CapiCreate request]
              in case capi_completion w request of
                   Inl err \<Rightarrow> (res, Rejected err)
                 | Inr toolCaller \<Rightarrow> dispatch w payload_messages toolCaller res))"

text \<open>
  Lines 14--45: verification, the token check (\<^verbatim>\<open>!apiKey\<close> holds for an absent header
  and for the empty string) and the acknowledgement, then the rest of the handler.
\<close>

definition post :: "('c, 'j) world \<Rightarrow> event list \<times> outcome" where
  "post w =
     (case verifyAndParseRequest w of
        Inl err \<Rightarrow> ([Status 401, EndWith ''Unauthorized''], Returned)
      | Inr (isValidRequest, payload_messages) \<Rightarrow>
          if \<not> isValidRequest then ([Status 401, Send ''Unauthorized''], Returned)
          else
            (case X_GitHub_Token w of
               None \<Rightarrow> ([Status 400, End], Returned)
             | Some apiKey \<Rightarrow>
                 if apiKey = [] then ([Status 400, End], Returned)
                 else select w payload_messages [Write (createAckEvent w)]))"

section \<open>Observations on a run\<close>

text \<open>
  The log of a run is read through a few projections: the strings written to the
  response, the names of the capability handlers that were invoked, the streaming
  requests that were issued, and whether an event is the issue of a streaming request.
  Logging to the console and the timers take no part in the log.
\<close>

fun writes :: "event list \<Rightarrow> string list" where
  "writes [] = []"
| "writes (Write s # es) = s # writes es"
| "writes (_ # es) = writes es"

fun executed :: "event list \<Rightarrow> string list" where
  "executed [] = []"
| "executed (Execute n # es) = n # executed es"
| "executed (_ # es) = executed es"

fun streaming_requests :: "event list \<Rightarrow> completion_request list" where
  "streaming_requests [] = []"
| "streaming_requests (CapiCreate r # es) =
     (if stream r then r # streaming_requests es else streaming_requests es)"
| "streaming_requests (InferenceCreate r # es) =
     (if stream r then r # streaming_requests es else streaming_requests es)"
| "streaming_requests (_ # es) = streaming_requests es"

fun awaits_stream :: "event \<Rightarrow> bool" where
  "awaits_stream (CapiCreate r) = stream r"
| "awaits_stream (InferenceCreate r) = stream r"
| "awaits_stream _ = False"

text \<open>
  The frames that come from a model: for a request to a backend, one frame per chunk of
  the stream that the backend answers with, in the order of the chunks, and the
  \<^verbatim>\<open>[DONE]\<close> frame when that stream ends without an error.
\<close>

definition frames_of :: "('c, 'j) world \<Rightarrow> error + 'c stream \<Rightarrow> string list" where
  "frames_of w answered =
     (case answered of
        Inl err \<Rightarrow> []
      | Inr s \<Rightarrow> map (chunkStr (stringify_chunk w)) (chunks s) @
          (case failure s of None \<Rightarrow> [done_frame] | Some err \<Rightarrow> []))"

fun stream_frames :: "('c, 'j) world \<Rightarrow> event \<Rightarrow> string list" where
  "stream_frames w (CapiCreate r) = frames_of w (capi_stream w r)"
| "stream_frames w (InferenceCreate r) = frames_of w (inference_stream w r)"
| "stream_frames w _ = []"

text \<open>
  A stretch of the log in which nothing is written before a streaming request is issued,
  and in which what is written from then on is the frames of that request's stream.
\<close>

definition model_frames_only :: "('c, 'j) world \<Rightarrow> event list \<Rightarrow> bool" where
  "model_frames_only w rest \<longleftrightarrow>
     writes (takeWhile (\<lambda>e. \<not> awaits_stream e) rest) = []
     \<and> writes (dropWhile (\<lambda>e. \<not> awaits_stream e) rest) =
         (case dropWhile (\<lambda>e. \<not> awaits_stream e) rest of
            [] \<Rightarrow> []
          | e # _ \<Rightarrow> stream_frames w e)"

text \<open>
  The status code that goes out with the response headers. Node sends the headers with
  the first \<^verbatim>\<open>write\<close>, \<^verbatim>\<open>end\<close> or \<^verbatim>\<open>send\<close>, with the status code that
  is set at that moment (200 from the start); a \<^verbatim>\<open>res.status\<close> after that no longer
  reaches the caller.
\<close>

fun sent_status :: "nat \<Rightarrow> event list \<Rightarrow> nat option" where
  "sent_status code [] = None"
| "sent_status code (Status n # es) = sent_status n es"
| "sent_status code (Write s # es) = Some code"
| "sent_status code (End # es) = Some code"
| "sent_status code (EndWith s # es) = Some code"
| "sent_status code (Send s # es) = Some code"
| "sent_status code (_ # es) = sent_status code es"

section \<open>Concrete requests\<close>

text \<open>
  A Selector answer whose first choice carries the tool calls \<open>ts\<close>, and one with a
  single tool call of the given name and argument text.
\<close>

definition tool_calls_response :: "tool_call list \<Rightarrow> choice list \<Rightarrow> completion" where
  "tool_calls_response ts more_choices =
     \<lparr> choices = \<lparr> message = Some \<lparr> tool_calls = Some ts \<rparr> \<rparr> # more_choices \<rparr>"

definition first_tool_call :: "string \<Rightarrow> string \<Rightarrow> completion" where
  "first_tool_call n a =
     tool_calls_response [ \<lparr> func = Some \<lparr> name = n, arguments = a \<rparr> \<rparr> ] []"

definition user_turn :: "message list" where
  "user_turn = [ \<lparr> role = ''user'', content = ''using gpt-4o: say hi'' \<rparr> ]"

definition description_request :: runner_response where
  "description_request =
     \<lparr> runner_response.model = ''gpt-4o-mini'',
       messages = [ \<lparr> role = ''system'', content = ''Describe the model gpt-4o.'' \<rparr> ] \<rparr>"

text \<open>
  The request in which the user asks for \<^verbatim>\<open>gpt-4o\<close> to say hi: the signature
  verifies, the token is there and the Selector picks \<^verbatim>\<open>execute_model\<close>. The three
  capabilities of the other files have static definitions, and the one that describes a
  model resolves. A chunk is held by its JSON text, a parsed argument object by the
  function from its keys to their values.
\<close>

definition scenario :: "(string, string \<Rightarrow> string) world" where
  "scenario =
     \<lparr> verifyAndParseRequest = Inr (True, user_turn),
       X_GitHub_Token = Some ''token'',
       createAckEvent = ''data: {}'' @ [CHR 0x0A, CHR 0x0A],
       listModels_result = Inr [],
       stringify_models = (\<lambda>_. ''[]''),
       stringify_chunk = (\<lambda>c. c),
       parse = (\<lambda>s. if s = ''{model: gpt-4o, instruction: say hi}'' \<or> s = ''{model: gpt-4o}''
                     then Some (\<lambda>k. if k = ''model'' then ''gpt-4o'' else ''say hi'')
                     else None),
       capi_completion =
         (\<lambda>_. Inr (first_tool_call ''execute_model'' ''{model: gpt-4o, instruction: say hi}'')),
       capi_stream = (\<lambda>_. Inr (Stream [''a'', ''b''] None)),
       inference_stream = (\<lambda>_. Inr (Stream [''x'', ''y'', ''z''] None)),
       listModels =
         \<lparr> definition_static = True, definition_name = ''list_models'',
           execute = (\<lambda>_ _. Inl (Error ''catalogue'')) \<rparr>,
       describeModel =
         \<lparr> definition_static = True, definition_name = ''describe_model'',
           execute = (\<lambda>_ _. Inr description_request) \<rparr>,
       recommendModel =
         \<lparr> definition_static = True, definition_name = ''recommend_model'',
           execute = (\<lambda>_ _. Inl (Error ''catalogue'')) \<rparr>,
       as_execute_args =
         (\<lambda>j. Inr \<lparr> execute_args.model = j ''model'', instruction = j ''instruction'' \<rparr>) \<rparr>"

text \<open>The same request, with a Selector that answers differently or without the token.\<close>

definition empty_tool_calls :: "(string, string \<Rightarrow> string) world" where
  "empty_tool_calls = scenario \<lparr> capi_completion := (\<lambda>_. Inr (tool_calls_response [] [])) \<rparr>"


definition malformed_arguments :: "(string, string \<Rightarrow> string) world" where
  "malformed_arguments =
     scenario \<lparr> capi_completion := (\<lambda>_. Inr (first_tool_call ''execute_model'' ''{'')) \<rparr>"

definition unknown_malformed :: "(string, string \<Rightarrow> string) world" where
  "unknown_malformed =
     scenario \<lparr> capi_completion := (\<lambda>_. Inr (first_tool_call ''delete_model'' ''{'')) \<rparr>"

definition unknown_capability :: "(string, string \<Rightarrow> string) world" where
  "unknown_capability =
     scenario \<lparr> capi_completion := (\<lambda>_. Inr (first_tool_call ''delete_model''
        ''{model: gpt-4o, instruction: say hi}'')) \<rparr>"

definition describe_request :: "(string, string \<Rightarrow> string) world" where
  "describe_request =
     scenario \<lparr> capi_completion := (\<lambda>_. Inr (first_tool_call ''describe_model''
        ''{model: gpt-4o}'')) \<rparr>"

definition failing_handler :: "(string, string \<Rightarrow> string) world" where
  "failing_handler =
     describe_request \<lparr> describeModel :=
       \<lparr> definition_static = True, definition_name = ''describe_model'',
         execute = (\<lambda>_ _. Inl (Error ''not found'')) \<rparr> \<rparr>"

definition two_tool_calls :: "(string, string \<Rightarrow> string) world" where
  "two_tool_calls =
     scenario \<lparr> capi_completion := (\<lambda>_. Inr (tool_calls_response
       [ \<lparr> func = Some \<lparr> name = ''execute_model'',
                         arguments = ''{model: gpt-4o, instruction: say hi}'' \<rparr> \<rparr>,
         \<lparr> func = Some \<lparr> name = ''describe_model'', arguments = ''{model: gpt-4o}'' \<rparr> \<rparr> ] [])) \<rparr>"

definition no_token :: "(string, string \<Rightarrow> string) world" where
  "no_token = scenario \<lparr> X_GitHub_Token := None \<rparr>"

section \<open>Properties of \<^verbatim>\<open>executeModel.execute\<close>\<close>

text \<open>
  C1. For every argument pair (model, instruction), \<^verbatim>\<open>execute\<close> returns the given model
  as the target model and exactly two messages: a system message that tells the target
  model to name itself first, then a user message whose content is the instruction
  unchanged. The conversation argument has no influence on the result.
\<close>

theorem executeModel_execute_rewrites:
  "runner_response.model (executeModel_execute conversation \<lparr> execute_args.model = m, instruction = i \<rparr>) = m
   \<and> runner_response.messages (executeModel_execute conversation \<lparr> execute_args.model = m, instruction = i \<rparr>) =
       [ \<lparr> role = ''system'',
           content = ''Begin your response by telling the user the name of your language model.'' \<rparr>,
         \<lparr> role = ''user'', content = i \<rparr> ]
   \<and> length (runner_response.messages (executeModel_execute conversation \<lparr> execute_args.model = m, instruction = i \<rparr>)) = 2
   \<and> executeModel_execute conversation \<lparr> execute_args.model = m, instruction = i \<rparr> =
       executeModel_execute other_conversation \<lparr> execute_args.model = m, instruction = i \<rparr>"
  by (simp add: executeModel_execute_def)

section \<open>The loop and the two streaming stages in closed form\<close>

lemma for_await_append:
  "for_await stringify cs res = res @ map (\<lambda>c. Write (chunkStr stringify c)) cs"
  by (induction cs arbitrary: res) simp_all

lemma writes_append: "writes (xs @ ys) = writes xs @ writes ys"
  by (induction xs rule: writes.induct) simp_all

lemma writes_frames: "writes (map (\<lambda>c. Write (f c)) cs) = map f cs"
  by (induction cs) simp_all

lemma executed_append: "executed (xs @ ys) = executed xs @ executed ys"
  by (induction xs rule: executed.induct) simp_all

lemma executed_frames: "executed (map (\<lambda>c. Write (f c)) cs) = []"
  by (induction cs) simp_all

lemma streaming_requests_append:
  "streaming_requests (xs @ ys) = streaming_requests xs @ streaming_requests ys"
  by (induction xs rule: streaming_requests.induct) simp_all

lemma streaming_requests_frames: "streaming_requests (map (\<lambda>c. Write (f c)) cs) = []"
  by (induction cs) simp_all

lemmas observe = writes_append writes_frames executed_append executed_frames
  streaming_requests_append streaming_requests_frames

lemma stream_toolCallRequest: "stream (toolCallRequest w models msgs) = False"
  by (simp add: toolCallRequest_def)

lemma stream_fallback_request: "stream (fallback_request msgs) = True"
  by (simp add: fallback_request_def)

lemma stream_answer_request: "stream (answer_request fr) = True"
  by (simp add: answer_request_def)

lemma answer_closed:
  "answer w fr res =
     (res @ InferenceCreate (answer_request fr) #
        (case inference_stream w (answer_request fr) of
           Inl e \<Rightarrow> [Status 500, End]
         | Inr s \<Rightarrow> map (\<lambda>c. Write (chunkStr (stringify_chunk w) c)) (chunks s) @
             (case failure s of Some e \<Rightarrow> [Status 500, End] | None \<Rightarrow> [Write done_frame, End])),
      Returned)"
  by (simp add: answer_def Let_def for_await_append split: sum.split option.split)

lemma fallback_closed:
  "fallback w msgs res =
     (res @ CapiCreate (fallback_request msgs) #
        (case capi_stream w (fallback_request msgs) of
           Inl e \<Rightarrow> []
         | Inr s \<Rightarrow> map (\<lambda>c. Write (chunkStr (stringify_chunk w) c)) (chunks s) @
             (case failure s of Some e \<Rightarrow> [] | None \<Rightarrow> [Write done_frame, End])),
      case capi_stream w (fallback_request msgs) of
        Inl e \<Rightarrow> Rejected e
      | Inr s \<Rightarrow> (case failure s of Some e \<Rightarrow> Rejected e | None \<Rightarrow> Returned))"
  by (simp add: fallback_def Let_def for_await_append split: sum.split option.split)

lemmas run_defs = post_def select_def dispatch_def no_tool_call_def function_exec_def
  functionToCall_def functions'_def executeModel_def executeModel_name_def
  answer_closed fallback_closed Let_def first_tool_call_def tool_calls_response_def
  describe_request_def

section \<open>The fallback branch and its guard\<close>

lemma no_tool_call_streams_original:
  "no_tool_call toolCaller = Inr True \<Longrightarrow>
   streaming_requests (fst (dispatch w payload_messages toolCaller res)) =
     streaming_requests res @ [fallback_request payload_messages]"
  by (simp add: dispatch_def fallback_closed observe stream_fallback_request
      split: sum.split option.split)

text \<open>
  C2. When the Selector's answer holds no tool call, the streaming request is to carry
  the original messages and the model \<^verbatim>\<open>gpt-4\<close>. Where the guard finds no tool
  call that is what happens (\<open>no_tool_call_streams_original\<close>). An answer whose
  \<^verbatim>\<open>tool_calls\<close> is the empty array holds no tool call either, but for it the guard
  raises: the handler's promise is rejected with a \<^verbatim>\<open>TypeError\<close> and no streaming
  request is issued at all.
\<close>

theorem empty_tool_calls_never_streams:
  "streaming_requests (fst (post empty_tool_calls)) = []
   \<and> snd (post empty_tool_calls) = Rejected TypeError"
  by (simp add: empty_tool_calls_def scenario_def run_defs stream_toolCallRequest)

text \<open>
  C8. For a Selector answer whose first choice has a message with an empty
  \<^verbatim>\<open>tool_calls\<close> array, the guard is to evaluate and the request is to take the
  fallback branch. In the code the guard reads \<^verbatim>\<open>tool_calls[0].function\<close> past the
  end of the array and raises a \<^verbatim>\<open>TypeError\<close>; the dispatch step ends there, with
  nothing added to the response.
\<close>

theorem empty_tool_calls_guard_raises:
  "no_tool_call (tool_calls_response [] more_choices) = Inl TypeError
   \<and> dispatch w payload_messages (tool_calls_response [] more_choices) res =
       (res, Rejected TypeError)"
  by (simp add: dispatch_def no_tool_call_def tool_calls_response_def)

section \<open>The tool-selection request\<close>

text \<open>
  C4. The messages of the tool-selection request are to be the system preamble followed
  by the inbound conversation, each inbound message once. The code appends the
  conversation a second time: for the one-message conversation of \<open>scenario\<close> the
  request that the run issues carries that message twice.
\<close>

theorem toolCallMessages_twice:
  "messages (toolCallRequest w models payload_messages) =
     system_preamble w models # payload_messages @ payload_messages
   \<and> CapiCreate (toolCallRequest scenario [] user_turn) \<in> set (fst (post scenario))
   \<and> messages (toolCallRequest scenario [] user_turn) =
       system_preamble scenario [] # user_turn @ user_turn
   \<and> count_list (messages (toolCallRequest scenario [] user_turn)) (hd user_turn) = 2"
proof (intro conjI)
  show "messages (toolCallRequest w models payload_messages) =
     system_preamble w models # payload_messages @ payload_messages"
    by (simp add: toolCallRequest_def toolCallMessages_def)
  show "CapiCreate (toolCallRequest scenario [] user_turn) \<in> set (fst (post scenario))"
    by (simp add: scenario_def run_defs)
  show "messages (toolCallRequest scenario [] user_turn) =
       system_preamble scenario [] # user_turn @ user_turn"
    by (simp add: toolCallRequest_def toolCallMessages_def)
  show "count_list (messages (toolCallRequest scenario [] user_turn)) (hd user_turn) = 2"
    by (simp add: toolCallRequest_def toolCallMessages_def user_turn_def system_preamble_def)
qed

section \<open>Parsing the arguments and calling the capability\<close>

text \<open>
  C5. A first tool call whose arguments do not parse is to end the request with a server
  error status. \<^verbatim>\<open>JSON.parse\<close> stands before the \<^verbatim>\<open>try\<close>: the handler's promise
  is rejected with the \<^verbatim>\<open>SyntaxError\<close>, and the response, on which only the
  acknowledgement was written, gets neither a status nor an end. No capability handler
  runs and no chunk frame is written.
\<close>

theorem malformed_arguments_rejects:
  "post malformed_arguments =
     ([Write (createAckEvent malformed_arguments), ListModels,
       CapiCreate (toolCallRequest malformed_arguments [] user_turn)],
      Rejected SyntaxError)"
  by (simp add: malformed_arguments_def scenario_def run_defs)

lemma find_funcClass_functions:
  "find_funcClass n (functions' w) =
     (if definition_static (listModels w)
      then (if definition_name (listModels w) = n then Inr (Some (listModels w))
            else if definition_static (describeModel w)
            then (if definition_name (describeModel w) = n then Inr (Some (describeModel w))
                  else Inl TypeError)
            else Inl TypeError)
      else Inl TypeError)"
  by (simp add: functions'_def executeModel_def)

lemma capability_failure_aborts:
  assumes "verifyAndParseRequest w = Inr (True, payload_messages)"
    and "X_GitHub_Token w = Some apiKey" and "apiKey \<noteq> []"
    and "listModels_result w = Inr models"
    and "capi_completion w (toolCallRequest w models payload_messages) = Inr toolCaller"
    and "functionToCall toolCaller = Inr f"
    and "parse w (arguments f) = Some args"
    and "(\<forall>funcClass. find_funcClass (name f) (functions' w) \<noteq> Inr (Some funcClass))
         \<or> (\<exists>funcClass err. find_funcClass (name f) (functions' w) = Inr (Some funcClass)
               \<and> execute funcClass payload_messages args = Inl err)"
  shows "snd (post w) = Returned
     \<and> (\<exists>evs. fst (post w) =
            [Write (createAckEvent w), ListModels,
             CapiCreate (toolCallRequest w models payload_messages)] @ evs @ [Status 500, End]
          \<and> (evs = [] \<or> evs = [Execute (name f)]))
     \<and> streaming_requests (fst (post w)) = []
     \<and> writes (fst (post w)) = [createAckEvent w]"
proof -
  from assms(6) have guard: "no_tool_call toolCaller = Inr False"
    by (auto simp: functionToCall_def no_tool_call_def
        split: list.splits option.splits)
  have run: "post w = function_exec w payload_messages toolCaller
      [Write (createAckEvent w), ListModels,
       CapiCreate (toolCallRequest w models payload_messages)]"
    using assms(1-5) guard by (simp add: post_def select_def dispatch_def Let_def)
  from assms(8) show ?thesis
  proof
    assume "\<forall>funcClass. find_funcClass (name f) (functions' w) \<noteq> Inr (Some funcClass)"
    with assms(6,7) show ?thesis
      by (simp add: run function_exec_def stream_toolCallRequest
          split: sum.split option.split)
  next
    assume "\<exists>funcClass err. find_funcClass (name f) (functions' w) = Inr (Some funcClass)
               \<and> execute funcClass payload_messages args = Inl err"
    with assms(6,7) show ?thesis
      by (auto simp: run function_exec_def Let_def stream_toolCallRequest)
  qed
qed

lemma unknown_capability_aborts:
  "post unknown_capability =
     ([Write (createAckEvent unknown_capability), ListModels,
       CapiCreate (toolCallRequest unknown_capability [] user_turn), Status 500, End],
      Returned)"
  by (simp add: unknown_capability_def scenario_def run_defs)

lemma failing_handler_aborts:
  "post failing_handler =
     ([Write (createAckEvent failing_handler), ListModels,
       CapiCreate (toolCallRequest failing_handler [] user_turn),
       Execute ''describe_model'', Status 500, End],
      Returned)"
  by (simp add: failing_handler_def scenario_def run_defs)

text \<open>
  C7. A capability name that is not in the registry, or a handler that fails, is to end
  the request with a server error status, without a streaming request and without a
  chunk frame. Once the arguments have parsed, the \<^verbatim>\<open>catch\<close> does call
  \<^verbatim>\<open>res.status(500).end()\<close>, and nothing is streamed
  (\<open>capability_failure_aborts\<close>). The arguments are parsed before the name is looked
  up, and outside the \<^verbatim>\<open>try\<close>: for an unknown name with arguments that do not
  parse, the promise is rejected and no status is set.
\<close>

theorem unknown_malformed_rejects:
  "find (\<lambda>t. definition_name t = ''delete_model'') (functions' unknown_malformed) = None
   \<and> post unknown_malformed =
     ([Write (createAckEvent unknown_malformed), ListModels,
       CapiCreate (toolCallRequest unknown_malformed [] user_turn)],
      Rejected SyntaxError)"
  by (simp add: unknown_malformed_def scenario_def run_defs)

section \<open>Only the first tool call counts\<close>

lemma executed_answer: "executed (fst (answer w fr res)) = executed res"
  by (simp add: answer_closed observe split: sum.split option.split)

lemma executed_fallback: "executed (fst (fallback w msgs res)) = executed res"
  by (simp add: fallback_closed observe split: sum.split option.split)

lemma executed_function_exec:
  "executed (fst (function_exec w msgs tc res)) = executed res
   \<or> (\<exists>f. functionToCall tc = Inr f
          \<and> executed (fst (function_exec w msgs tc res)) = executed res @ [name f])"
  by (simp add: function_exec_def Let_def executed_answer observe
      split: sum.split option.split)

lemma executed_dispatch:
  "executed (fst (dispatch w msgs tc res)) = executed res
   \<or> (\<exists>f. functionToCall tc = Inr f
          \<and> executed (fst (dispatch w msgs tc res)) = executed res @ [name f])"
  using executed_function_exec [of w msgs tc res]
  by (simp add: dispatch_def executed_fallback split: sum.split bool.split)

lemma executed_select:
  "executed (fst (select w msgs res)) = executed res
   \<or> (\<exists>models tc f. listModels_result w = Inr models
          \<and> capi_completion w (toolCallRequest w models msgs) = Inr tc
          \<and> functionToCall tc = Inr f
          \<and> executed (fst (select w msgs res)) = executed res @ [name f])"
proof (cases "listModels_result w")
  case (Inl e)
  then show ?thesis by (simp add: select_def Let_def observe)
next
  case models: (Inr models)
  show ?thesis
  proof (cases "capi_completion w (toolCallRequest w models msgs)")
    case (Inl e)
    with models show ?thesis by (simp add: select_def Let_def observe)
  next
    case (Inr tc)
    with models
      executed_dispatch [of w msgs tc "res @ [ListModels, CapiCreate (toolCallRequest w models msgs)]"]
    show ?thesis by (auto simp: select_def Let_def observe)
  qed
qed

lemma executed_post:
  "executed (fst (post w)) = []
   \<or> (\<exists>msgs models tc f. verifyAndParseRequest w = Inr (True, msgs)
          \<and> listModels_result w = Inr models
          \<and> capi_completion w (toolCallRequest w models msgs) = Inr tc
          \<and> functionToCall tc = Inr f
          \<and> executed (fst (post w)) = [name f])"
proof (cases "verifyAndParseRequest w")
  case (Inl e)
  then show ?thesis by (simp add: post_def)
next
  case (Inr p)
  obtain valid msgs where p: "p = (valid, msgs)" by (cases p)
  show ?thesis
  proof (cases "valid \<and> (\<exists>k. X_GitHub_Token w = Some k \<and> k \<noteq> [])")
    case False
    with Inr p show ?thesis by (auto simp: post_def split: option.splits)
  next
    case True
    with Inr p executed_select [of w msgs "[Write (createAckEvent w)]"]
    show ?thesis by (auto simp: post_def)
  qed
qed

lemma functionToCall_first:
  "functionToCall (tool_calls_response (t # others) more_choices) = Inr f \<Longrightarrow> func t = Some f"
  by (simp add: functionToCall_def tool_calls_response_def split: option.splits)

lemma dispatch_first:
  "dispatch w msgs (tool_calls_response (t # others) more_choices) res =
   dispatch w msgs (tool_calls_response [t] []) res"
  by (simp add: dispatch_def no_tool_call_def function_exec_def functionToCall_def
      tool_calls_response_def split: bool.split)

lemma functions'_capi_completion: "functions' (w \<lparr> capi_completion := c \<rparr>) = functions' w"
  by (simp add: functions'_def executeModel_def)

lemma toolCallRequest_capi_completion:
  "toolCallRequest (w \<lparr> capi_completion := c \<rparr>) = toolCallRequest w"
  by (simp add: fun_eq_iff toolCallRequest_def toolCallMessages_def system_preamble_def
      functions'_capi_completion)

lemma fallback_capi_completion: "fallback (w \<lparr> capi_completion := c \<rparr>) = fallback w"
  by (simp add: fun_eq_iff fallback_def Let_def cong: sum.case_cong option.case_cong)

lemma answer_capi_completion: "answer (w \<lparr> capi_completion := c \<rparr>) = answer w"
  by (simp add: fun_eq_iff answer_def Let_def cong: sum.case_cong option.case_cong)

lemma function_exec_capi_completion:
  "function_exec (w \<lparr> capi_completion := c \<rparr>) = function_exec w"
  by (simp add: fun_eq_iff function_exec_def Let_def functions'_capi_completion
      answer_capi_completion cong: sum.case_cong option.case_cong)

lemma dispatch_capi_completion: "dispatch (w \<lparr> capi_completion := c \<rparr>) = dispatch w"
  by (simp add: fun_eq_iff dispatch_def function_exec_capi_completion
      fallback_capi_completion cong: sum.case_cong bool.case_cong)

lemma post_selected:
  "post (w \<lparr> capi_completion := (\<lambda>_. Inr tc) \<rparr>) =
     (case verifyAndParseRequest w of
        Inl err \<Rightarrow> ([Status 401, EndWith ''Unauthorized''], Returned)
      | Inr (isValidRequest, payload_messages) \<Rightarrow>
          if \<not> isValidRequest then ([Status 401, Send ''Unauthorized''], Returned)
          else
            (case X_GitHub_Token w of
               None \<Rightarrow> ([Status 400, End], Returned)
             | Some apiKey \<Rightarrow>
                 if apiKey = [] then ([Status 400, End], Returned)
                 else
                   (case listModels_result w of
                      Inl err \<Rightarrow> ([Write (createAckEvent w), ListModels], Rejected err)
                    | Inr models \<Rightarrow>
                        dispatch w payload_messages tc
                          [Write (createAckEvent w), ListModels,
                           CapiCreate (toolCallRequest w models payload_messages)])))"
  by (simp add: post_def select_def Let_def toolCallRequest_capi_completion
      dispatch_capi_completion split: sum.split option.split prod.split)

lemma first_tool_call_wins:
  "length (executed (fst (post w))) \<le> 1
   \<and> post (w \<lparr> capi_completion := (\<lambda>_. Inr (tool_calls_response (t # others) more_choices)) \<rparr>) =
       post (w \<lparr> capi_completion := (\<lambda>_. Inr (tool_calls_response [t] [])) \<rparr>)
   \<and> (executed (fst (post
          (w \<lparr> capi_completion := (\<lambda>_. Inr (tool_calls_response (t # others) more_choices)) \<rparr>))) = []
       \<or> (\<exists>f. func t = Some f \<and> executed (fst (post
          (w \<lparr> capi_completion := (\<lambda>_. Inr (tool_calls_response (t # others) more_choices)) \<rparr>))) =
            [name f]))"
proof (intro conjI)
  show "length (executed (fst (post w))) \<le> 1"
    using executed_post [of w] by auto
  show "post (w \<lparr> capi_completion := (\<lambda>_. Inr (tool_calls_response (t # others) more_choices)) \<rparr>) =
       post (w \<lparr> capi_completion := (\<lambda>_. Inr (tool_calls_response [t] [])) \<rparr>)"
    by (simp only: post_selected dispatch_first [of w _ t others more_choices])
  let ?w = "w \<lparr> capi_completion := (\<lambda>_. Inr (tool_calls_response (t # others) more_choices)) \<rparr>"
  show "executed (fst (post ?w)) = []
       \<or> (\<exists>f. func t = Some f \<and> executed (fst (post ?w)) = [name f])"
    using executed_post [of ?w] by (auto dest: functionToCall_first)
qed

lemma found_capability_runs:
  assumes "verifyAndParseRequest w = Inr (True, payload_messages)"
    and "X_GitHub_Token w = Some apiKey" and "apiKey \<noteq> []"
    and "listModels_result w = Inr models"
    and "capi_completion w (toolCallRequest w models payload_messages) =
           Inr (tool_calls_response (t # others) more_choices)"
    and "func t = Some f"
    and "parse w (arguments f) = Some args"
    and "find_funcClass (name f) (functions' w) = Inr (Some funcClass)"
  shows "executed (fst (post w)) = [name f]
     \<and> post w =
         (case execute funcClass payload_messages args of
            Inl err \<Rightarrow>
              ([Write (createAckEvent w), ListModels,
                CapiCreate (toolCallRequest w models payload_messages),
                Execute (name f), Status 500, End], Returned)
          | Inr functionCallRes \<Rightarrow>
              answer w functionCallRes
                [Write (createAckEvent w), ListModels,
                 CapiCreate (toolCallRequest w models payload_messages), Execute (name f)])"
proof -
  have run: "post w =
         (case execute funcClass payload_messages args of
            Inl err \<Rightarrow>
              ([Write (createAckEvent w), ListModels,
                CapiCreate (toolCallRequest w models payload_messages),
                Execute (name f), Status 500, End], Returned)
          | Inr functionCallRes \<Rightarrow>
              answer w functionCallRes
                [Write (createAckEvent w), ListModels,
                 CapiCreate (toolCallRequest w models payload_messages), Execute (name f)])"
    using assms
    by (simp add: post_def select_def dispatch_def no_tool_call_def function_exec_def
        functionToCall_def tool_calls_response_def Let_def split: sum.split)
  show ?thesis
    by (rule conjI [OF _ run])
       (simp add: run executed_answer split: sum.split)
qed

text \<open>
  C3. Only the first tool call that the Selector offers is to be decomposed and
  executed. That at most one handler runs and that the further tool calls change
  nothing holds in every run (\<open>first_tool_call_wins\<close>), and a first tool call whose
  class the lookup finds is run on its own parsed arguments
  (\<open>found_capability_runs\<close>). But when the first of two tool calls names
  \<^verbatim>\<open>execute_model\<close>, which is in the registry, and its arguments parse, the lookup
  raises at the \<^verbatim>\<open>executeModel\<close> class, whose definition is not static: the
  \<^verbatim>\<open>catch\<close> calls \<^verbatim>\<open>res.status(500).end()\<close> and no handler is executed.
\<close>

theorem first_of_two_not_executed:
  "executeModel two_tool_calls \<in> set (functions' two_tool_calls)
   \<and> definition_name (executeModel two_tool_calls) = ''execute_model''
   \<and> parse two_tool_calls ''{model: gpt-4o, instruction: say hi}'' \<noteq> None
   \<and> find_funcClass ''execute_model'' (functions' two_tool_calls) = Inl TypeError
   \<and> post two_tool_calls =
       ([Write (createAckEvent two_tool_calls), ListModels,
         CapiCreate (toolCallRequest two_tool_calls [] user_turn), Status 500, End],
        Returned)
   \<and> executed (fst (post two_tool_calls)) = []"
  by (simp add: two_tool_calls_def scenario_def run_defs)

section \<open>Streaming the answer\<close>



section \<open>The acknowledgement\<close>

lemma missing_token_answers_400:
  "verifyAndParseRequest w = Inr (True, payload_messages) \<Longrightarrow> X_GitHub_Token w = None \<Longrightarrow>
   post w = ([Status 400, End], Returned)"
  by (simp add: post_def)

lemma framed_answer:
  "\<exists>rest. fst (answer w fr res) = res @ rest \<and> model_frames_only w rest"
  by (simp add: answer_closed stream_answer_request model_frames_only_def frames_of_def
      observe split: sum.split option.split)

lemma framed_fallback:
  "\<exists>rest. fst (fallback w msgs res) = res @ rest \<and> model_frames_only w rest"
  by (simp add: fallback_closed stream_fallback_request model_frames_only_def frames_of_def
      observe split: sum.split option.split)

lemma framed_function_exec:
  "\<exists>rest. fst (function_exec w msgs tc res) = res @ rest \<and> model_frames_only w rest"
  by (simp add: function_exec_def Let_def answer_closed stream_answer_request
      model_frames_only_def frames_of_def observe split: sum.split option.split)

lemma framed_dispatch:
  "\<exists>rest. fst (dispatch w msgs tc res) = res @ rest \<and> model_frames_only w rest"
  using framed_function_exec [of w msgs tc res] framed_fallback [of w msgs res]
  by (simp add: dispatch_def model_frames_only_def split: sum.split bool.split)

lemma framed_select:
  "\<exists>rest. fst (select w msgs res) = res @ ListModels # rest \<and> model_frames_only w rest"
proof (cases "listModels_result w")
  case (Inl e)
  then show ?thesis by (simp add: select_def Let_def model_frames_only_def)
next
  case models: (Inr models)
  let ?request = "toolCallRequest w models msgs"
  show ?thesis
  proof (cases "capi_completion w ?request")
    case (Inl e)
    with models show ?thesis
      by (simp add: select_def Let_def stream_toolCallRequest model_frames_only_def)
  next
    case (Inr tc)
    from framed_dispatch [of w msgs tc "res @ [ListModels, CapiCreate ?request]"]
    obtain rest where
      "fst (dispatch w msgs tc (res @ [ListModels, CapiCreate ?request])) =
         (res @ [ListModels, CapiCreate ?request]) @ rest"
      and "model_frames_only w rest"
      by blast
    with models Inr show ?thesis
      by (simp add: select_def Let_def stream_toolCallRequest model_frames_only_def)
  qed
qed

lemma acknowledged_status_200:
  assumes "verifyAndParseRequest w = Inr (True, payload_messages)"
    and "X_GitHub_Token w = Some apiKey" and "apiKey \<noteq> []"
  shows "sent_status 200 (fst (post w)) = Some 200"
proof -
  from framed_select [of w payload_messages "[Write (createAckEvent w)]"]
  obtain rest where
    "fst (select w payload_messages [Write (createAckEvent w)]) =
       [Write (createAckEvent w)] @ ListModels # rest"
    by blast
  with assms show ?thesis by (simp add: post_def)
qed

text \<open>
  C9. For every valid signed request, which is one whose signature verifies and which
  carries its access token, the first thing the handler does is to write the
  acknowledgement; the catalogue and the Selector are called after it. Nothing else is
  written before a streaming request has been issued, and what is written after that
  request is exactly the frames of the stream that the backend answers it with. So the
  strings written in the run are the one acknowledgement, followed by the frames that
  come from the model.
\<close>

theorem acknowledgement_first:
  assumes "verifyAndParseRequest w = Inr (True, payload_messages)"
    and "X_GitHub_Token w = Some apiKey" and "apiKey \<noteq> []"
  shows "\<exists>rest. fst (post w) = Write (createAckEvent w) # ListModels # rest
     \<and> writes (takeWhile (\<lambda>e. \<not> awaits_stream e) rest) = []
     \<and> writes (dropWhile (\<lambda>e. \<not> awaits_stream e) rest) =
         (case dropWhile (\<lambda>e. \<not> awaits_stream e) rest of
            [] \<Rightarrow> []
          | e # _ \<Rightarrow> stream_frames w e)
     \<and> writes (fst (post w)) =
         createAckEvent w #
           (case dropWhile (\<lambda>e. \<not> awaits_stream e) rest of
              [] \<Rightarrow> []
            | e # _ \<Rightarrow> stream_frames w e)"
proof -
  from framed_select [of w payload_messages "[Write (createAckEvent w)]"]
  obtain rest where
    sel: "fst (select w payload_messages [Write (createAckEvent w)]) =
       [Write (createAckEvent w)] @ ListModels # rest"
    and framed: "model_frames_only w rest"
    by blast
  let ?quiet = "takeWhile (\<lambda>e. \<not> awaits_stream e) rest"
  let ?streamed = "dropWhile (\<lambda>e. \<not> awaits_stream e) rest"
  from assms sel have log: "fst (post w) = Write (createAckEvent w) # ListModels # rest"
    by (simp add: post_def)
  from framed have quiet: "writes ?quiet = []"
    and streamed: "writes ?streamed = (case ?streamed of [] \<Rightarrow> [] | e # _ \<Rightarrow> stream_frames w e)"
    by (simp_all add: model_frames_only_def)
  have "writes rest = writes ?quiet @ writes ?streamed"
    by (simp only: writes_append [symmetric] takeWhile_dropWhile_id)
  with quiet streamed
  have "writes (fst (post w)) =
      createAckEvent w # (case ?streamed of [] \<Rightarrow> [] | e # _ \<Rightarrow> stream_frames w e)"
    by (simp add: log)
  with log quiet streamed show ?thesis by blast
qed

theorem acknowledgement_first_witness:
  "verifyAndParseRequest describe_request = Inr (True, user_turn)
   \<and> X_GitHub_Token describe_request = Some ''token'' \<and> ''token'' \<noteq> []
   \<and> (\<exists>rest. fst (post describe_request) =
          Write (createAckEvent describe_request) # ListModels # rest
        \<and> writes (takeWhile (\<lambda>e. \<not> awaits_stream e) rest) = []
        \<and> writes (dropWhile (\<lambda>e. \<not> awaits_stream e) rest) =
            (case dropWhile (\<lambda>e. \<not> awaits_stream e) rest of
               [] \<Rightarrow> []
             | e # _ \<Rightarrow> stream_frames describe_request e)
        \<and> writes (fst (post describe_request)) =
            createAckEvent describe_request #
              (case dropWhile (\<lambda>e. \<not> awaits_stream e) rest of
                 [] \<Rightarrow> []
               | e # _ \<Rightarrow> stream_frames describe_request e))
   \<and> writes (fst (post describe_request)) =
       [createAckEvent describe_request,
        ''data: x'' @ [CHR 0x0A, CHR 0x0A], ''data: y'' @ [CHR 0x0A, CHR 0x0A],
        ''data: z'' @ [CHR 0x0A, CHR 0x0A], done_frame]"
proof -
  have verified: "verifyAndParseRequest describe_request = Inr (True, user_turn)"
    and token: "X_GitHub_Token describe_request = Some ''token''"
    by (simp_all add: describe_request_def scenario_def)
  have present: "''token'' \<noteq> []" by simp
  have written: "writes (fst (post describe_request)) =
       [createAckEvent describe_request,
        ''data: x'' @ [CHR 0x0A, CHR 0x0A], ''data: y'' @ [CHR 0x0A, CHR 0x0A],
        ''data: z'' @ [CHR 0x0A, CHR 0x0A], done_frame]"
    by (simp add: scenario_def run_defs chunkStr_def)
  from acknowledgement_first [OF verified token present] verified token present written
  show ?thesis by simp
qed

section \<open>Usage reporting\<close>

lemma events_answer:
  assumes "\<forall>e\<in>set res. P e" and "P (InferenceCreate (answer_request fr))"
    and "\<And>n. P (Status n)" and "\<And>s. P (Write s)" and "P End"
  shows "\<forall>e\<in>set (fst (answer w fr res)). P e"
  using assms by (auto simp: answer_closed split: sum.splits option.splits)

lemma events_fallback:
  assumes "\<forall>e\<in>set res. P e" and "P (CapiCreate (fallback_request msgs))"
    and "\<And>s. P (Write s)" and "P End"
  shows "\<forall>e\<in>set (fst (fallback w msgs res)). P e"
  using assms by (auto simp: fallback_closed split: sum.splits option.splits)

lemma events_function_exec:
  assumes "\<forall>e\<in>set res. P e" and "\<And>fr. P (InferenceCreate (answer_request fr))"
    and "\<And>n. P (Status n)" and "\<And>s. P (Write s)" and "P End" and "\<And>n. P (Execute n)"
  shows "\<forall>e\<in>set (fst (function_exec w msgs tc res)). P e"
proof -
  have "\<forall>e\<in>set (fst (answer w fr (res @ [Execute n]))). P e" for fr n
    using assms by (intro events_answer) auto
  with assms show ?thesis
    by (auto simp: function_exec_def Let_def split: sum.splits option.splits)
qed

lemma events_dispatch:
  assumes "\<forall>e\<in>set res. P e" and "\<And>fr. P (InferenceCreate (answer_request fr))"
    and "P (CapiCreate (fallback_request msgs))"
    and "\<And>n. P (Status n)" and "\<And>s. P (Write s)" and "P End" and "\<And>n. P (Execute n)"
  shows "\<forall>e\<in>set (fst (dispatch w msgs tc res)). P e"
proof -
  have "\<forall>e\<in>set (fst (function_exec w msgs tc res)). P e"
    using assms by (intro events_function_exec) auto
  moreover have "\<forall>e\<in>set (fst (fallback w msgs res)). P e"
    using assms by (intro events_fallback) auto
  ultimately show ?thesis
    using assms(1) by (auto simp: dispatch_def split: sum.splits bool.splits)
qed

lemma events_select:
  assumes "\<forall>e\<in>set res. P e" and "\<And>fr. P (InferenceCreate (answer_request fr))"
    and "P (CapiCreate (fallback_request msgs))"
    and "\<And>models. P (CapiCreate (toolCallRequest w models msgs))"
    and "\<And>n. P (Status n)" and "\<And>s. P (Write s)" and "P End" and "\<And>n. P (Execute n)"
    and "P ListModels"
  shows "\<forall>e\<in>set (fst (select w msgs res)). P e"
proof -
  have "\<forall>e\<in>set (fst (dispatch w msgs tc
          (res @ [ListModels, CapiCreate (toolCallRequest w models msgs)]))). P e" for tc models
    using assms by (intro events_dispatch) auto
  with assms(1,4,9) show ?thesis
    by (auto simp: select_def Let_def split: sum.splits)
qed

lemma events_post:
  assumes "\<And>fr. P (InferenceCreate (answer_request fr))"
    and "\<And>msgs. P (CapiCreate (fallback_request msgs))"
    and "\<And>models msgs. P (CapiCreate (toolCallRequest w models msgs))"
    and "\<And>n. P (Status n)" and "\<And>s. P (Write s)" and "P End" and "\<And>n. P (Execute n)"
    and "P ListModels" and "\<And>s. P (EndWith s)" and "\<And>s. P (Send s)"
  shows "\<forall>e\<in>set (fst (post w)). P e"
proof -
  have "\<forall>e\<in>set (fst (select w msgs [Write (createAckEvent w)])). P e" for msgs
    using assms by (intro events_select) auto
  with assms(4,6,9,10) show ?thesis
    by (auto simp: post_def split: sum.splits option.splits prod.splits if_splits)
qed

lemma streaming_requests_origin:
  "r \<in> set (streaming_requests tr) \<Longrightarrow> CapiCreate r \<in> set tr \<or> InferenceCreate r \<in> set tr"
  by (induction tr rule: streaming_requests.induct) (auto split: if_splits)

lemma usage_reporting_never_requested:
  "(InferenceCreate r \<in> set (fst (post w)) \<longrightarrow>
      stream r \<and> stream_options r = Some \<lparr> include_usage = False \<rparr>)
   \<and> (CapiCreate r \<in> set (fst (post w)) \<longrightarrow> stream_options r = None)
   \<and> (r \<in> set (streaming_requests (fst (post w))) \<longrightarrow>
        stream_options r \<noteq> Some \<lparr> include_usage = True \<rparr>)"
proof -
  let ?P = "\<lambda>e. case e of
      InferenceCreate r \<Rightarrow> stream r \<and> stream_options r = Some \<lparr> include_usage = False \<rparr>
    | CapiCreate r \<Rightarrow> stream_options r = None
    | _ \<Rightarrow> True"
  have "\<forall>e\<in>set (fst (post w)). ?P e"
    by (rule events_post)
       (simp_all add: answer_request_def fallback_request_def toolCallRequest_def)
  then have inference: "InferenceCreate r \<in> set (fst (post w)) \<Longrightarrow>
      stream r \<and> stream_options r = Some \<lparr> include_usage = False \<rparr>"
    and capi: "CapiCreate r \<in> set (fst (post w)) \<Longrightarrow> stream_options r = None"
    by force+
  from inference capi streaming_requests_origin [of r "fst (post w)"]
  show ?thesis by auto
qed


end
